theory Spec2Isabelle
  imports Complex_Main "HOL-Library.Sublist"
begin

section \<open>Numbers\<close>

text \<open>
  The billing application keeps its state in React hooks and talks to a remote document
  store. The embedding below follows the source: every interface of \<^verbatim>\<open>types.ts\<close> is a
  record, every \<^verbatim>\<open>useState\<close> cell is a field of a state record, every handler is a
  function from the state before to the state after, and every awaited remote call is
  an entry appended to a log of issued calls together with an explicit outcome
  (resolved with a payload, or rejected) that the handler receives as an argument.

  A value of the TypeScript type \<^verbatim>\<open>number\<close> is an IEEE 754 binary64 value: not a
  number, an infinity, the negative zero, or a finite value \<open>Fin r\<close>, where \<open>r\<close> is the
  rational the double stands for (\<open>Fin 0\<close> is the positive zero). Arithmetic computes
  the exact rational result and rounds it to the nearest double, ties to the even
  significand, with gradual underflow and overflow to an infinity.
\<close>

datatype number = NaN | PosInf | NegInf | NegZero | Fin rat

text \<open>The number of binary digits of a positive integer.\<close>

function bitLength :: "int \<Rightarrow> int" where
  "bitLength n = (if n \<le> 0 then 0 else 1 + bitLength (n div 2))"
  by auto
termination
  by (relation "measure nat") auto

declare bitLength.simps [simp del]

definition pow2 :: "int \<Rightarrow> rat" where
  "pow2 e = (if 0 \<le> e then 2 ^ nat e else 1 / 2 ^ nat (- e))"

text \<open>The exponent \<open>e\<close> with \<open>2 ^ e \<le> a < 2 ^ (e + 1)\<close>, for a positive \<open>a\<close>.\<close>

definition floorLog2 :: "rat \<Rightarrow> int" where
  "floorLog2 a = (if 1 \<le> a then bitLength \<lfloor>a\<rfloor> - 1 else - bitLength (\<lceil>1 / a\<rceil> - 1))"

definition roundHalfEven :: "rat \<Rightarrow> int" where
  "roundHalfEven x =
     (let n = \<lfloor>x\<rfloor>; f = x - of_int n
      in if f < 1 / 2 then n else if 1 / 2 < f then n + 1 else if even n then n else n + 1)"

text \<open>
  Rounding an exact result to binary64. The significand has 53 binary digits, so the
  spacing of the doubles around a value of exponent \<open>e\<close> is \<open>2 ^ (e - 52)\<close>; below
  the exponent -1022 the spacing stays \<open>2 ^ (-1074)\<close>. A result that rounds to
  \<open>2 ^ 1024\<close> or more is an infinity, and one that rounds to zero keeps its sign.
\<close>

definition round64 :: "rat \<Rightarrow> number" where
  "round64 r =
     (if r = 0 then Fin 0
      else
        (let a = \<bar>r\<bar>;
             e = max (floorLog2 a) (- 1022);
             ulp = pow2 (e - 52);
             v = of_int (roundHalfEven (a / ulp)) * ulp
         in if pow2 1024 \<le> v then (if 0 < r then PosInf else NegInf)
            else if v = 0 then (if 0 < r then Fin 0 else NegZero)
            else Fin (if 0 < r then v else - v)))"

definition isZero :: "number \<Rightarrow> bool" where
  "isZero x = (x = Fin 0 \<or> x = NegZero)"

definition isInfinite :: "number \<Rightarrow> bool" where
  "isInfinite x = (x = PosInf \<or> x = NegInf)"

fun signBit :: "number \<Rightarrow> bool" where
  "signBit NaN = False"
| "signBit PosInf = False"
| "signBit NegInf = True"
| "signBit NegZero = True"
| "signBit (Fin r) = (r < 0)"

fun valueOf :: "number \<Rightarrow> rat" where
  "valueOf (Fin r) = r"
| "valueOf x = 0"

text \<open>The operators \<^verbatim>\<open>*\<close> and \<^verbatim>\<open>+\<close> on numbers.\<close>

definition mul64 :: "number \<Rightarrow> number \<Rightarrow> number" where
  "mul64 x y =
     (if x = NaN \<or> y = NaN then NaN
      else if (isInfinite x \<and> isZero y) \<or> (isZero x \<and> isInfinite y) then NaN
      else if isInfinite x \<or> isInfinite y then (if signBit x = signBit y then PosInf else NegInf)
      else if isZero x \<or> isZero y then (if signBit x = signBit y then Fin 0 else NegZero)
      else round64 (valueOf x * valueOf y))"

definition add64 :: "number \<Rightarrow> number \<Rightarrow> number" where
  "add64 x y =
     (if x = NaN \<or> y = NaN then NaN
      else if isInfinite x \<and> isInfinite y then (if x = y then x else NaN)
      else if isInfinite x then x
      else if isInfinite y then y
      else if isZero x \<and> isZero y then (if x = NegZero \<and> y = NegZero then NegZero else Fin 0)
      else round64 (valueOf x + valueOf y))"

text \<open>
  \<^verbatim>\<open>Math.max\<close> of two numbers: not a number if either is, the positive zero above
  the negative one. \<open>less64\<close> orders the numbers that are not \<open>NaN\<close>.
\<close>

definition less64 :: "number \<Rightarrow> number \<Rightarrow> bool" where
  "less64 x y =
     (if x = PosInf \<or> y = NegInf then False
      else if x = NegInf \<or> y = PosInf then True
      else valueOf x < valueOf y)"

definition max64 :: "number \<Rightarrow> number \<Rightarrow> number" where
  "max64 x y =
     (if x = NaN \<or> y = NaN then NaN
      else if isZero x \<and> isZero y then (if x = NegZero \<and> y = NegZero then NegZero else Fin 0)
      else if less64 x y then y else x)"

text \<open>The operator \<^verbatim>\<open>===\<close> on numbers: \<open>NaN\<close> equals nothing, the two zeros are equal.\<close>

definition strictEquals :: "number \<Rightarrow> number \<Rightarrow> bool" where
  "strictEquals x y = (x \<noteq> NaN \<and> y \<noteq> NaN \<and> (x = y \<or> (isZero x \<and> isZero y)))"

section \<open>Data model (types.ts)\<close>

text \<open>A \<^verbatim>\<open>Date\<close> is its time value in milliseconds.\<close>

type_synonym Date = nat

datatype Timestamp = Timestamp (seconds: int) (nanoseconds: nat)

record Product =
  pid :: number
  name :: string
  price :: number
  docId :: "string option"

record BillItem =
  product :: Product
  quantity :: number
  lineId :: "string option"

record InvoiceData =
  inv_id :: "string option"
  invoiceNumber :: string
  date :: Date
  customerName :: string
  customerPhone :: string
  items :: "BillItem list"
  subtotal :: number
  gstAmount :: number
  grandTotal :: number
  userId :: string
  createdAt :: "Timestamp option"

record User =
  uid :: string

datatype View = Form | History | Products

section \<open>The remote document store as seen by the client\<close>

datatype Direction = Asc | Desc

datatype Constraint = Where_eq string string | OrderBy string Direction

datatype Query = Query string "Constraint list"

text \<open>
  A remote call issued by the client. \<open>AddInvoiceDoc inv\<close> stands for
  \<^verbatim>\<open>addDoc(collection(db, 'invoices'), {...inv, createdAt: serverTimestamp()})\<close>: the
  creation time is stamped by the server, not by the client.
\<close>

datatype RemoteCall =
    GetDocs Query
  | AddProductDoc number string number
  | AddInvoiceDoc InvoiceData
  | DeleteDoc string string

text \<open>The outcome of an awaited promise: resolved with a value, or rejected with an error.\<close>

datatype 'a Awaited = Resolved 'a | Rejected string

section \<open>The App component (state and handlers)\<close>

text \<open>
  A handler is a closure of the render it was created in. Where it reads the catalog of
  that render and, after an await, updates the catalog current at that moment, the two
  catalogs are separate arguments; they are equal when no other update of the catalog
  was applied in between.
\<close>

record AppState =
  user :: "User option"
  loading :: bool
  view :: View
  currentInvoice :: "InvoiceData option"
  products :: "Product list"
  alerts :: "string list"
  remote :: "RemoteCall list"

text \<open>
  The state right after mounting. \<open>PRODUCTS\<close> is the built-in catalog of
  \<^verbatim>\<open>constants.ts\<close>, taken as a parameter.
\<close>

definition initialState :: "Product list \<Rightarrow> AppState" where
  "initialState PRODUCTS =
     \<lparr>user = None, loading = True, view = Form, currentInvoice = None,
      products = PRODUCTS, alerts = [], remote = []\<rparr>"

definition alert :: "string \<Rightarrow> AppState \<Rightarrow> AppState" where
  "alert msg st = st\<lparr>alerts := alerts st @ [msg]\<rparr>"

definition issue :: "RemoteCall \<Rightarrow> AppState \<Rightarrow> AppState" where
  "issue c st = st\<lparr>remote := remote st @ [c]\<rparr>"

subsection \<open>Decimal rendering of the clock value in the invoice number\<close>

fun digitsOf :: "nat \<Rightarrow> string" where
  "digitsOf n =
     (if n < 10 then [char_of (48 + n)]
      else digitsOf (n div 10) @ [char_of (48 + n mod 10)])"

declare digitsOf.simps [simp del]

subsection \<open>handleGenerateBill\<close>

text \<open>
  \<^verbatim>\<open>billItems.reduce((acc, item) => acc + item.product.price * item.quantity, 0)\<close>
  is a left fold from 0, with the operators of numbers. \<open>GST_RATE\<close> is the constant
  of \<^verbatim>\<open>constants.ts\<close>;
  \<open>dateNow\<close> is the value read by \<^verbatim>\<open>Date.now()\<close> and \<open>newDate\<close> the one
  read by \<^verbatim>\<open>new Date()\<close>. All three are parameters.
\<close>

definition handleGenerateBill ::
  "number \<Rightarrow> nat \<Rightarrow> Date \<Rightarrow> string \<Rightarrow> string \<Rightarrow> BillItem list \<Rightarrow> AppState \<Rightarrow> AppState" where
  "handleGenerateBill GST_RATE dateNow newDate custName custPhone billItems st =
     (case user st of
        None \<Rightarrow> alert ''You must be logged in to generate a bill.'' st
      | Some u \<Rightarrow>
          (let sub = foldl (\<lambda>acc item. add64 acc (mul64 (price (product item)) (quantity item)))
                       (Fin 0) billItems;
               gst = mul64 sub GST_RATE;
               grand = add64 sub gst;
               invoiceBaseData =
                 \<lparr>inv_id = None,
                  invoiceNumber = ''BSMOM-'' @ digitsOf dateNow,
                  date = newDate,
                  customerName = custName,
                  customerPhone = custPhone,
                  items = billItems,
                  subtotal = sub,
                  gstAmount = gst,
                  grandTotal = grand,
                  userId = uid u,
                  createdAt = None\<rparr>
           in st\<lparr>currentInvoice := Some invoiceBaseData\<rparr>))"

subsection \<open>The identity listener\<close>

text \<open>The callback registered with \<^verbatim>\<open>onAuthStateChanged\<close>, run at every login and logout.\<close>

definition onAuthStateChanged :: "User option \<Rightarrow> AppState \<Rightarrow> AppState" where
  "onAuthStateChanged u st =
     st\<lparr>user := u, loading := False, view := Form, currentInvoice := None\<rparr>"

subsection \<open>JavaScript truthiness of an optional string\<close>

text \<open>\<^verbatim>\<open>undefined\<close> and the empty string are falsy, every other string is truthy.\<close>

fun truthy :: "string option \<Rightarrow> bool" where
  "truthy None = False"
| "truthy (Some s) = (s \<noteq> [])"

subsection \<open>loadProducts\<close>

record ProductDoc =
  d_docId :: string
  d_id :: number
  d_name :: string
  d_price :: number

definition productOfDoc :: "ProductDoc \<Rightarrow> Product" where
  "productOfDoc d = \<lparr>pid = d_id d, name = d_name d, price = d_price d, docId = Some (d_docId d)\<rparr>"

definition productsQuery :: Query where
  "productsQuery = Query ''products'' [OrderBy ''id'' Asc]"

text \<open>
  The effect run on mount. The snapshot is empty when it has no documents; then no
  state is written. A rejected read writes the built-in catalog.
\<close>

definition loadProducts :: "Product list \<Rightarrow> ProductDoc list Awaited \<Rightarrow> AppState \<Rightarrow> AppState" where
  "loadProducts PRODUCTS awaited st =
     (let st1 = issue (GetDocs productsQuery) st
      in case awaited of
           Resolved docs \<Rightarrow>
             (if docs \<noteq> [] then st1\<lparr>products := map productOfDoc docs\<rparr> else st1)
         | Rejected err \<Rightarrow> st1\<lparr>products := PRODUCTS\<rparr>)"

subsection \<open>handleAddProduct\<close>

text \<open>
  The handler computes the next code from \<^verbatim>\<open>products\<close>, the catalog of the render
  it was created in (the argument \<open>rendered\<close>), issues the write, and after the
  await appends to \<^verbatim>\<open>prev\<close>, the catalog current at that moment (the catalog of the
  state argument). The two differ when another catalog update was applied in between.
  The handler returns nothing, whether the write was confirmed or not.
\<close>

definition handleAddProduct ::
  "string Awaited \<Rightarrow> string \<Rightarrow> number \<Rightarrow> Product list \<Rightarrow> AppState \<Rightarrow> AppState" where
  "handleAddProduct awaited nm pr rendered st =
     (let maxId = foldl (\<lambda>m p. max64 m (pid p)) (Fin 0) rendered;
          nextId = add64 maxId (Fin 1);
          st1 = issue (AddProductDoc nextId nm pr) st
      in case awaited of
           Resolved docRefId \<Rightarrow>
             (let newProd = \<lparr>pid = nextId, name = nm, price = pr, docId = Some docRefId\<rparr>
              in st1\<lparr>products := products st1 @ [newProd]\<rparr>)
         | Rejected err \<Rightarrow> alert ''Failed to add product. Please try again.'' st1)"

subsection \<open>handleDeleteProduct\<close>

text \<open>
  The document to delete remotely is the \<^verbatim>\<open>docId\<close> argument when it is truthy, otherwise
  the \<^verbatim>\<open>docId\<close> of the first catalog entry with the given code and a truthy \<^verbatim>\<open>docId\<close>.
  When there is neither, the \<^verbatim>\<open>try\<close> block awaits nothing (\<open>docToDelete\<close> is the
  branching of the \<^verbatim>\<open>try\<close> block, returning the document that \<^verbatim>\<open>deleteDoc\<close> is called
  on, if any). A rejected deletion alerts and returns before the catalog is filtered.
  As in \<open>handleAddProduct\<close>, the catalog scanned is the one of the handler's render
  (\<open>rendered\<close>) and the catalog filtered is the current one.
\<close>

definition docToDelete :: "Product list \<Rightarrow> number \<Rightarrow> string option \<Rightarrow> string option" where
  "docToDelete prods i dId =
     (if truthy dId then dId
      else (case find (\<lambda>p. strictEquals (pid p) i \<and> truthy (docId p)) prods of
              None \<Rightarrow> None
            | Some toDelete \<Rightarrow> (if truthy (docId toDelete) then docId toDelete else None)))"

definition handleDeleteProduct ::
  "unit Awaited \<Rightarrow> number \<Rightarrow> string option \<Rightarrow> Product list \<Rightarrow> AppState \<Rightarrow> AppState" where
  "handleDeleteProduct awaited i dId rendered st =
     (case docToDelete rendered i dId of
        None \<Rightarrow> st\<lparr>products := filter (\<lambda>p. \<not> strictEquals (pid p) i) (products st)\<rparr>
      | Some d \<Rightarrow>
          (let st1 = issue (DeleteDoc ''products'' d) st
           in case awaited of
                Rejected err \<Rightarrow> alert ''Failed to delete product from database.'' st1
              | Resolved u \<Rightarrow> st1\<lparr>products := filter (\<lambda>p. \<not> strictEquals (pid p) i) (products st1)\<rparr>))"

subsection \<open>handleSaveInvoice\<close>

text \<open>
  The handler returns \<^verbatim>\<open>undefined\<close> (here \<open>None\<close>) when nobody is logged in,
  \<^verbatim>\<open>true\<close> after a confirmed write and \<^verbatim>\<open>false\<close> after a rejected one.
\<close>

definition handleSaveInvoice ::
  "string Awaited \<Rightarrow> InvoiceData \<Rightarrow> AppState \<Rightarrow> bool option \<times> AppState" where
  "handleSaveInvoice awaited invoiceData st =
     (case user st of
        None \<Rightarrow> (None, alert ''You must be logged in to save a bill.'' st)
      | Some u \<Rightarrow>
          (let st1 = issue (AddInvoiceDoc invoiceData) st
           in case awaited of
                Resolved docRefId \<Rightarrow>
                  (Some True, st1\<lparr>currentInvoice := Some (invoiceData\<lparr>inv_id := Some docRefId\<rparr>)\<rparr>)
              | Rejected err \<Rightarrow>
                  (Some False, alert ''Failed to save the invoice. Please try again.'' st1)))"

subsection \<open>Navigation\<close>

definition handleViewInvoice :: "InvoiceData \<Rightarrow> AppState \<Rightarrow> AppState" where
  "handleViewInvoice invoice st = st\<lparr>currentInvoice := Some invoice\<rparr>"

definition handleBack :: "AppState \<Rightarrow> AppState" where
  "handleBack st = st\<lparr>currentInvoice := None\<rparr>"

definition switchView :: "View \<Rightarrow> AppState \<Rightarrow> AppState" where
  "switchView newView st = st\<lparr>view := newView, currentInvoice := None\<rparr>"

section \<open>The BillHistory component\<close>

record InvoiceDoc =
  doc_id :: string
  doc_data :: InvoiceData

record HistoryState =
  invoices :: "InvoiceData list"
  h_loading :: bool
  h_error :: "string option"
  searchTerm :: string
  h_remote :: "RemoteCall list"

definition initialHistory :: HistoryState where
  "initialHistory =
     \<lparr>invoices = [], h_loading = True, h_error = None, searchTerm = [], h_remote = []\<rparr>"

definition invoicesQuery :: "User \<Rightarrow> Query" where
  "invoicesQuery u = Query ''invoices'' [Where_eq ''userId'' (uid u), OrderBy ''createdAt'' Desc]"

text \<open>
  \<^verbatim>\<open>{ id: doc.id, ...data, date: data.createdAt.toDate() }\<close>: an \<^verbatim>\<open>id\<close> field stored
  in the document overrides the document id, the date is always overridden. A document
  without \<^verbatim>\<open>createdAt\<close> makes \<^verbatim>\<open>toDate\<close> throw (here \<open>None\<close>). The conversion
  \<open>toDate\<close> belongs to the store's client library and is a parameter.
\<close>

definition invoiceOfDoc :: "(Timestamp \<Rightarrow> Date) \<Rightarrow> InvoiceDoc \<Rightarrow> InvoiceData option" where
  "invoiceOfDoc toDate d =
     (let data = doc_data d
      in case createdAt data of
           None \<Rightarrow> None
         | Some ts \<Rightarrow>
             Some (data\<lparr>inv_id := (case inv_id data of None \<Rightarrow> Some (doc_id d) | Some i \<Rightarrow> Some i),
                        date := toDate ts\<rparr>))"

definition fetchInvoices ::
  "(Timestamp \<Rightarrow> Date) \<Rightarrow> User \<Rightarrow> InvoiceDoc list Awaited \<Rightarrow> HistoryState \<Rightarrow> HistoryState" where
  "fetchInvoices toDate u awaited hs =
     (let hs1 = hs\<lparr>h_remote := h_remote hs @ [GetDocs (invoicesQuery u)]\<rparr>;
          hs2 =
            (case awaited of
               Resolved docs \<Rightarrow>
                 (case those (map (invoiceOfDoc toDate) docs) of
                    Some invoicesData \<Rightarrow> hs1\<lparr>invoices := invoicesData\<rparr>
                  | None \<Rightarrow> hs1\<lparr>h_error := Some ''Failed to fetch invoice history.''\<rparr>)
             | Rejected err \<Rightarrow> hs1\<lparr>h_error := Some ''Failed to fetch invoice history.''\<rparr>)
      in hs2\<lparr>h_loading := False\<rparr>)"


subsection \<open>Strings\<close>

text \<open>
  A string is the list of the bytes of its UTF-8 encoding; one well-formed text occurs
  in another exactly when its bytes occur there as a contiguous block, so
  \<^verbatim>\<open>s.includes(t)\<close> is \<open>sublist t s\<close>. The Unicode case conversion of the runtime
  is a parameter, \<open>lower\<close>; that the empty string is its own lower case is the one
  fact about it that is built in.
\<close>

definition toLowerCase :: "(string \<Rightarrow> string) \<Rightarrow> string \<Rightarrow> string" where
  "toLowerCase lower s = (if s = [] then [] else lower s)"

definition includesStr :: "string \<Rightarrow> string \<Rightarrow> bool" where
  "includesStr s t = sublist t s"

subsection \<open>filteredInvoices and what is rendered\<close>

text \<open>
  \<open>fmt\<close> is \<^verbatim>\<open>toLocaleDateString('en-IN')\<close> of the runtime, a parameter. The first two
  tests lower both sides, the third compares the formatted date with the term as typed.
\<close>

definition filteredInvoices ::
  "(string \<Rightarrow> string) \<Rightarrow> (Date \<Rightarrow> string) \<Rightarrow> InvoiceData list \<Rightarrow> string \<Rightarrow> InvoiceData list" where
  "filteredInvoices lower fmt invs term =
     filter (\<lambda>invoice.
        includesStr (toLowerCase lower (invoiceNumber invoice)) (toLowerCase lower term) \<or>
        includesStr (toLowerCase lower (customerName invoice)) (toLowerCase lower term) \<or>
        includesStr (fmt (date invoice)) term) invs"

datatype Rendered = LoadingView | ErrorView string | TableView "InvoiceData list"

definition render :: "(string \<Rightarrow> string) \<Rightarrow> (Date \<Rightarrow> string) \<Rightarrow> HistoryState \<Rightarrow> Rendered" where
  "render lower fmt hs =
     (if h_loading hs then LoadingView
      else if truthy (h_error hs) then ErrorView (case h_error hs of Some e \<Rightarrow> e | None \<Rightarrow> [])
      else TableView (filteredInvoices lower fmt (invoices hs) (searchTerm hs)))"

subsection \<open>The filter as the specification words it\<close>



subsection \<open>Sample values of the runtime's functions\<close>





subsection \<open>Lifecycle states of the specification\<close>

text \<open>
  No current invoice is \<open>NoDraft\<close>; a current invoice without a document id is a
  computed draft; one with a document id is persisted.
\<close>

datatype Lifecycle = NoDraft | DraftComputed | Persisted

definition lifecycle :: "AppState \<Rightarrow> Lifecycle" where
  "lifecycle st =
     (case currentInvoice st of
        None \<Rightarrow> NoDraft
      | Some invoice \<Rightarrow> (case inv_id invoice of None \<Rightarrow> DraftComputed | Some i \<Rightarrow> Persisted))"

section \<open>Properties\<close>

subsection \<open>Evaluating and bounding the arithmetic of numbers\<close>

text \<open>
  Rules that evaluate \<open>bitLength\<close>, \<open>floor\<close> and \<open>ceiling\<close> on numerals, so that a
  rounding of a given rational is computed by rewriting.
\<close>

lemma bitLength_0: "bitLength 0 = 0"
  by (simp add: bitLength.simps)

lemma bitLength_1: "bitLength 1 = 1"
  by (simp add: bitLength.simps)

lemma bitLength_Bit0: "bitLength (numeral (Num.Bit0 k)) = 1 + bitLength (numeral k)"
  by (subst bitLength.simps) simp

lemma bitLength_Bit1: "bitLength (numeral (Num.Bit1 k)) = 1 + bitLength (numeral k)"
  by (subst bitLength.simps) simp

lemma floor_fraction: "\<lfloor>numeral a / numeral b :: rat\<rfloor> = numeral a div numeral b"
  using floor_divide_of_int_eq [of "numeral a" "numeral b", where ?'a = rat] by simp

lemma ceiling_fraction: "\<lceil>numeral a / numeral b :: rat\<rceil> = - ((- numeral a) div numeral b)"
  using ceiling_divide_eq_div [of "numeral a" "numeral b", where ?'a = rat] by simp

lemmas round64_eval = round64_def floorLog2_def roundHalfEven_def pow2_def Let_def
  bitLength_0 bitLength_1 bitLength_Bit0 bitLength_Bit1 floor_fraction ceiling_fraction

lemmas arith64_eval = mul64_def add64_def max64_def less64_def isZero_def isInfinite_def
  round64_eval

text \<open>
  A positive integer of \<open>b\<close> binary digits lies between \<open>2 ^ (b - 1)\<close> and \<open>2 ^ b\<close>;
  hence every integer up to \<open>2 ^ 53\<close> is a double, and sums and products of integers
  that stay in this range are exact.
\<close>

lemma bitLength_pos: "0 < n \<Longrightarrow> 1 \<le> bitLength n"
proof (induction n rule: bitLength.induct)
  case (1 n)
  have "0 \<le> bitLength (n div 2)"
  proof (cases "n div 2 \<le> 0")
    case True
    then show ?thesis by (simp add: bitLength.simps)
  next
    case False
    with 1 show ?thesis by simp
  qed
  with 1 show ?case by (subst bitLength.simps) simp
qed

lemma bitLength_bounds:
  "0 < n \<Longrightarrow> 2 ^ nat (bitLength n - 1) \<le> n \<and> n < 2 ^ nat (bitLength n)"
proof (induction n rule: bitLength.induct)
  case (1 n)
  show ?case
  proof (cases "n = 1")
    case True
    then show ?thesis by (simp add: bitLength_1)
  next
    case False
    with 1 have half: "0 < n div 2" by simp
    with 1 have ih: "2 ^ nat (bitLength (n div 2) - 1) \<le> n div 2"
      "n div 2 < 2 ^ nat (bitLength (n div 2))"
      by simp_all
    have pos: "1 \<le> bitLength (n div 2)" using half by (rule bitLength_pos)
    have bl: "bitLength n = 1 + bitLength (n div 2)"
      using 1 by (subst bitLength.simps) simp
    have e1: "nat (bitLength n - 1) = Suc (nat (bitLength (n div 2) - 1))"
      using pos bl by simp
    have e2: "nat (bitLength n) = Suc (nat (bitLength (n div 2)))"
      using pos bl by simp
    from ih(1) have "2 * 2 ^ nat (bitLength (n div 2) - 1) \<le> n" by linarith
    moreover from ih(2) have "n < 2 * 2 ^ nat (bitLength (n div 2))" by linarith
    ultimately show ?thesis by (simp add: e1 e2)
  qed
qed

lemma roundHalfEven_int: "roundHalfEven (of_int k) = k"
  by (simp add: roundHalfEven_def)

lemma round64_int:
  assumes "0 < n" and "n \<le> 2 ^ 53"
  shows "round64 (of_int n) = Fin (of_int n)"
proof -
  let ?b = "bitLength n"
  from bitLength_bounds [OF assms(1)] have lo: "2 ^ nat (?b - 1) \<le> n" and hi: "n < 2 ^ nat ?b"
    by simp_all
  have pos: "1 \<le> ?b" using assms(1) by (rule bitLength_pos)
  from lo assms(2) have h: "(2::int) ^ nat (?b - 1) \<le> 2 ^ 53" by linarith
  have "(1::int) < 2" by simp
  from power_le_imp_le_exp [OF this h] have "nat (?b - 1) \<le> 53" .
  with pos have b54: "?b \<le> 54" by linarith
  have fl: "floorLog2 (of_int n) = ?b - 1"
    using assms(1) by (simp add: floorLog2_def)
  have e: "max (?b - 1) (- 1022) = ?b - 1" using pos by simp
  have v: "of_int (roundHalfEven (rat_of_int n / pow2 (?b - 1 - 52))) * pow2 (?b - 1 - 52) = of_int n"
  proof (cases "?b \<le> 53")
    case True
    then have p: "pow2 (?b - 1 - 52) = 1 / 2 ^ nat (53 - ?b)"
      by (cases "?b = 53") (simp_all add: pow2_def)
    have "rat_of_int n / (1 / 2 ^ nat (53 - ?b)) = of_int (n * 2 ^ nat (53 - ?b))"
      by simp
    then show ?thesis by (simp only: p roundHalfEven_int) simp
  next
    case False
    with b54 have b: "?b = 54" by simp
    with lo assms(2) have n: "n = 2 ^ 53" by simp
    have "roundHalfEven (rat_of_int (2 ^ 53) / 2) = 2 ^ 52"
      using roundHalfEven_int [of "2 ^ 52"] by simp
    then show ?thesis using b n by (simp add: pow2_def)
  qed
  have small: "\<not> pow2 1024 \<le> rat_of_int n"
  proof -
    have "rat_of_int n \<le> 2 ^ 53" using assms(2) by (metis of_int_le_iff of_int_numeral of_int_power)
    moreover have "(2::rat) ^ 53 < 2 ^ 1024" by (rule power_strict_increasing) simp_all
    ultimately show ?thesis by (simp add: pow2_def)
  qed
  have a: "\<bar>rat_of_int n\<bar> = rat_of_int n" using assms(1) by simp
  have v': "of_int (roundHalfEven (rat_of_int n /
                pow2 (max (floorLog2 (rat_of_int n)) (- 1022) - 52))) *
              pow2 (max (floorLog2 (rat_of_int n)) (- 1022) - 52) = rat_of_int n"
    using v by (simp only: fl e)
  have nz: "rat_of_int n \<noteq> 0" "0 < rat_of_int n" using assms(1) by simp_all
  show ?thesis
    unfolding round64_def Let_def a v' using nz small by (simp only: if_False if_True)
qed

lemma max64_Fin: "max64 (Fin a) (Fin b) = Fin (max a b)"
  by (auto simp: max64_def less64_def isZero_def max_def)

lemma foldl_max64_ints:
  "foldl (\<lambda>m p. max64 m (f p)) (Fin (of_int a)) xs = Fin (of_int (Max (insert a (set ks))))"
  if "map f xs = map (\<lambda>k. Fin (of_int k)) ks"
  using that
proof (induction xs arbitrary: a ks)
  case Nil
  then show ?case by simp
next
  case (Cons x xs)
  then obtain k ks' where ks: "ks = k # ks'" and x: "f x = Fin (of_int k)"
    and rest: "map f xs = map (\<lambda>k. Fin (of_int k)) ks'"
    by (cases ks) auto
  have m: "max64 (Fin (of_int a)) (f x) = Fin (of_int (max a k))"
    by (simp add: x max64_Fin of_int_max)
  have "Max (insert (max a k) (set ks')) = Max (insert a (insert k (set ks')))"
    by (cases "set ks' = {}") (simp_all add: max.assoc)
  with Cons.IH [OF rest, of "max a k"] show ?case
    by (simp add: m ks)
qed

lemma add64_succ:
  assumes "0 \<le> m" and "m < 2 ^ 53"
  shows "add64 (Fin (of_int m)) (Fin 1) = Fin (of_int (m + 1))"
proof -
  have "round64 (of_int (m + 1)) = Fin (of_int (m + 1))"
    using assms by (intro round64_int) simp_all
  then show ?thesis
    by (simp add: add64_def isZero_def isInfinite_def)
qed




subsection \<open>Generating a draft\<close>




text \<open>
  C2. With no operator logged in, \<^verbatim>\<open>handleGenerateBill\<close> only raises the alert
  that a login is required, whatever the customer name, phone and line items: the
  current invoice and hence the lifecycle state stay as they were, no remote call is
  issued and the catalog is untouched.
\<close>

theorem generate_without_operator:
  "handleGenerateBill GST_RATE now today cn cp billItems (st\<lparr>user := None\<rparr>) =
     (st\<lparr>user := None\<rparr>)\<lparr>alerts := alerts st @ [''You must be logged in to generate a bill.'']\<rparr> \<and>
   currentInvoice (handleGenerateBill GST_RATE now today cn cp billItems (st\<lparr>user := None\<rparr>)) = currentInvoice st \<and>
   lifecycle (handleGenerateBill GST_RATE now today cn cp billItems (st\<lparr>user := None\<rparr>)) = lifecycle st \<and>
   remote (handleGenerateBill GST_RATE now today cn cp billItems (st\<lparr>user := None\<rparr>)) = remote st \<and>
   products (handleGenerateBill GST_RATE now today cn cp billItems (st\<lparr>user := None\<rparr>)) = products st"
  by (simp add: handleGenerateBill_def alert_def lifecycle_def)

subsection \<open>Identity changes\<close>

text \<open>
  C9. The identity listener, run at every login and logout, drops the current invoice
  whatever the state before was: the lifecycle is back at \<open>NoDraft\<close> and the view is
  the billing form. The new identity is recorded; catalog and remote log are untouched.
\<close>

theorem identity_change_resets:
  "currentInvoice (onAuthStateChanged u st) = None \<and>
   lifecycle (onAuthStateChanged u st) = NoDraft \<and>
   view (onAuthStateChanged u st) = Form \<and>
   user (onAuthStateChanged u st) = u \<and>
   loading (onAuthStateChanged u st) = False \<and>
   products (onAuthStateChanged u st) = products st \<and>
   remote (onAuthStateChanged u st) = remote st"
  by (simp add: onAuthStateChanged_def lifecycle_def)

subsection \<open>Adding a product\<close>

text \<open>
  C3, as stated, fails: in a catalog whose largest code is \<open>2 ^ 53\<close> the confirmed
  new product gets the code \<open>2 ^ 53\<close> again, not \<open>2 ^ 53 + 1\<close>, which no double
  holds.
\<close>

theorem add_product_counterexample:
  "map pid (products
      (handleAddProduct (Resolved ''doc9'') ''Sesame Oil 500ml'' (Fin 180)
         [\<lparr>pid = Fin 9007199254740992, name = ''Groundnut Oil 1L'', price = Fin 250,
           docId = Some ''doc1''\<rparr>]
         (onAuthStateChanged (Some \<lparr>uid = ''op1''\<rparr>)
            (initialState
               [\<lparr>pid = Fin 9007199254740992, name = ''Groundnut Oil 1L'', price = Fin 250,
                 docId = Some ''doc1''\<rparr>])))) =
     [Fin 9007199254740992, Fin 9007199254740992] \<and>
   Fin (1 + 9007199254740992) \<noteq> Fin 9007199254740992"
  by (simp add: handleAddProduct_def issue_def onAuthStateChanged_def initialState_def arith64_eval)

text \<open>
  C3, amended. When the remote create is rejected, \<^verbatim>\<open>handleAddProduct\<close> leaves the
  working catalog as it was and raises the failure alert; nothing else of the state
  changes but the log of issued calls, and nothing is returned to the caller. When it
  resolves, the new product is appended to the current catalog with the given name and
  price, the document id returned by the store, and the code
  \<^verbatim>\<open>products.reduce((m, p) => Math.max(m, p.id), 0) + 1\<close> of the catalog the handler
  was rendered with, in binary64 arithmetic; the write request carries the same code.
  When the codes of that catalog are integers below \<open>2 ^ 53\<close>, the code is
  1 + max (these codes and 0): added to a catalog whose largest code is 3, the product
  gets the code 4.
\<close>

theorem add_product:
  "handleAddProduct (Rejected err) nm pr rendered st =
     st\<lparr>remote := remote st @
            [AddProductDoc (add64 (foldl (\<lambda>m p. max64 m (pid p)) (Fin 0) rendered) (Fin 1)) nm pr],
        alerts := alerts st @ [''Failed to add product. Please try again.'']\<rparr> \<and>
   handleAddProduct (Resolved ref) nm pr rendered st =
     st\<lparr>remote := remote st @
            [AddProductDoc (add64 (foldl (\<lambda>m p. max64 m (pid p)) (Fin 0) rendered) (Fin 1)) nm pr],
        products := products st @
            [\<lparr>pid = add64 (foldl (\<lambda>m p. max64 m (pid p)) (Fin 0) rendered) (Fin 1),
              name = nm, price = pr, docId = Some ref\<rparr>]\<rparr> \<and>
   (map pid rendered = map (\<lambda>k. Fin (of_int k)) ks \<and> (\<forall>k\<in>set ks. k < 2 ^ 53) \<longrightarrow>
      add64 (foldl (\<lambda>m p. max64 m (pid p)) (Fin 0) rendered) (Fin 1) =
        Fin (of_int (1 + Max (insert 0 (set ks)))))"
proof (intro conjI impI)
  show "handleAddProduct (Rejected err) nm pr rendered st =
     st\<lparr>remote := remote st @
            [AddProductDoc (add64 (foldl (\<lambda>m p. max64 m (pid p)) (Fin 0) rendered) (Fin 1)) nm pr],
        alerts := alerts st @ [''Failed to add product. Please try again.'']\<rparr>"
    by (simp add: handleAddProduct_def Let_def issue_def alert_def)
next
  show "handleAddProduct (Resolved ref) nm pr rendered st =
     st\<lparr>remote := remote st @
            [AddProductDoc (add64 (foldl (\<lambda>m p. max64 m (pid p)) (Fin 0) rendered) (Fin 1)) nm pr],
        products := products st @
            [\<lparr>pid = add64 (foldl (\<lambda>m p. max64 m (pid p)) (Fin 0) rendered) (Fin 1),
              name = nm, price = pr, docId = Some ref\<rparr>]\<rparr>"
    by (simp add: handleAddProduct_def Let_def issue_def)
next
  assume a: "map pid rendered = map (\<lambda>k. Fin (of_int k)) ks \<and> (\<forall>k\<in>set ks. k < 2 ^ 53)"
  then have m: "foldl (\<lambda>m p. max64 m (pid p)) (Fin (of_int 0)) rendered =
                  Fin (of_int (Max (insert 0 (set ks))))"
    by (intro foldl_max64_ints) simp
  have fin: "finite (insert (0::int) (set ks))" and ne: "insert (0::int) (set ks) \<noteq> {}"
    by simp_all
  have lo: "0 \<le> Max (insert 0 (set ks))" using fin by (simp add: Max_ge_iff)
  have "Max (insert 0 (set ks)) \<in> insert 0 (set ks)" using fin ne by (rule Max_in)
  with a have hi: "Max (insert 0 (set ks)) < 2 ^ 53" by auto
  from add64_succ [OF lo hi] m
  show "add64 (foldl (\<lambda>m p. max64 m (pid p)) (Fin 0) rendered) (Fin 1) =
          Fin (of_int (1 + Max (insert 0 (set ks))))"
    by (simp add: add.commute)
qed

theorem add_product_witness:
  "map pid (products
      (handleAddProduct (Resolved ''doc4'') ''Sesame Oil 500ml'' (Fin 180)
         [\<lparr>pid = Fin 1, name = ''Groundnut Oil 1L'', price = Fin 250, docId = None\<rparr>,
          \<lparr>pid = Fin 3, name = ''Coconut Oil 1L'', price = Fin 90, docId = Some ''d3''\<rparr>,
          \<lparr>pid = Fin 2, name = ''Castor Oil 200ml'', price = Fin 120, docId = None\<rparr>]
         (initialState
            [\<lparr>pid = Fin 1, name = ''Groundnut Oil 1L'', price = Fin 250, docId = None\<rparr>,
             \<lparr>pid = Fin 3, name = ''Coconut Oil 1L'', price = Fin 90, docId = Some ''d3''\<rparr>,
             \<lparr>pid = Fin 2, name = ''Castor Oil 200ml'', price = Fin 120, docId = None\<rparr>]))) =
     [Fin 1, Fin 3, Fin 2, Fin 4]"
proof -
  let ?cat = "[\<lparr>pid = Fin 1, name = ''Groundnut Oil 1L'', price = Fin 250, docId = None\<rparr>,
          \<lparr>pid = Fin 3, name = ''Coconut Oil 1L'', price = Fin 90, docId = Some ''d3''\<rparr>,
          \<lparr>pid = Fin 2, name = ''Castor Oil 200ml'', price = Fin 120, docId = None\<rparr>]"
  note inst = add_product [where rendered = ?cat and ks = "[1, 3, 2]" and st = "initialState ?cat"
      and nm = "''Sesame Oil 500ml''" and pr = "Fin 180" and ref = "''doc4''"]
  have ids: "map pid ?cat = map (\<lambda>k. Fin (of_int k)) [1, 3, 2] \<and> (\<forall>k\<in>set [1, 3, 2]. k < (2::int) ^ 53)"
    by simp
  from inst [THEN conjunct2, THEN conjunct2] ids
  have next_id: "add64 (foldl (\<lambda>m p. max64 m (pid p)) (Fin 0) ?cat) (Fin 1) =
                   Fin (of_int (1 + Max (insert 0 (set [1, 3, 2]))))"
    by (rule mp)
  have "Max (insert 0 (set [1, 3, 2])) = (3::int)" by simp
  with next_id have four: "add64 (foldl (\<lambda>m p. max64 m (pid p)) (Fin 0) ?cat) (Fin 1) = Fin 4"
    by simp
  from inst [THEN conjunct2, THEN conjunct1]
  have "products (handleAddProduct (Resolved ''doc4'') ''Sesame Oil 500ml'' (Fin 180) ?cat
           (initialState ?cat)) =
        products (initialState ?cat) @
          [\<lparr>pid = add64 (foldl (\<lambda>m p. max64 m (pid p)) (Fin 0) ?cat) (Fin 1),
            name = ''Sesame Oil 500ml'', price = Fin 180, docId = Some ''doc4''\<rparr>]"
    by simp
  then show ?thesis
    by (simp only: four) (simp add: initialState_def)
qed

subsection \<open>Deleting a product\<close>

lemma find_SomeD: "find P xs = Some x \<Longrightarrow> x \<in> set xs \<and> P x"
  by (induction xs) (auto split: if_splits)

lemma find_first: "P x \<Longrightarrow> \<forall>y\<in>set pre. \<not> P y \<Longrightarrow> find P (pre @ x # post) = Some x"
  by (induction pre) simp_all

lemma docToDelete_given: "truthy dId \<Longrightarrow> docToDelete prods i dId = dId"
  by (simp add: docToDelete_def)

lemma docToDelete_first:
  assumes "\<not> truthy dId" and "strictEquals (pid p) i" and "docId p = Some d" and "d \<noteq> []"
    and "\<forall>q\<in>set pre. strictEquals (pid q) i \<longrightarrow> \<not> truthy (docId q)"
  shows "docToDelete (pre @ p # post) i dId = Some d"
proof -
  have "find (\<lambda>p. strictEquals (pid p) i \<and> truthy (docId p)) (pre @ p # post) = Some p"
    using assms by (intro find_first) auto
  with assms show ?thesis by (simp add: docToDelete_def)
qed

lemma find_none_docToDelete:
  assumes "\<not> truthy dId" and "\<forall>p\<in>set prods. strictEquals (pid p) i \<longrightarrow> \<not> truthy (docId p)"
  shows "docToDelete prods i dId = None"
proof (cases "find (\<lambda>p. strictEquals (pid p) i \<and> truthy (docId p)) prods")
  case None
  with assms(1) show ?thesis by (simp add: docToDelete_def)
next
  case (Some toDelete)
  from find_SomeD [OF Some] assms(2) have False by blast
  then show ?thesis ..
qed

lemma delete_with_target:
  assumes "docToDelete rendered i dId = Some d"
  shows "handleDeleteProduct (Rejected err) i dId rendered st =
           st\<lparr>remote := remote st @ [DeleteDoc ''products'' d],
              alerts := alerts st @ [''Failed to delete product from database.'']\<rparr>"
    and "handleDeleteProduct (Resolved ()) i dId rendered st =
           st\<lparr>remote := remote st @ [DeleteDoc ''products'' d],
              products := filter (\<lambda>p. \<not> strictEquals (pid p) i) (products st)\<rparr>"
  using assms by (simp_all add: handleDeleteProduct_def Let_def issue_def alert_def)

text \<open>
  C4, as stated, fails: a catalog entry without a document id (a built-in product) is
  removed from the working catalog although no remote deletion was issued, let alone
  succeeded. Here the store would even have rejected one.
\<close>

theorem delete_without_remote_success_counterexample:
  "products (handleDeleteProduct (Rejected ''offline'') (Fin 1) None
      [\<lparr>pid = Fin 1, name = ''Groundnut Oil 1L'', price = Fin 250, docId = None\<rparr>]
      (onAuthStateChanged (Some \<lparr>uid = ''op1''\<rparr>)
        (initialState [\<lparr>pid = Fin 1, name = ''Groundnut Oil 1L'', price = Fin 250, docId = None\<rparr>]))) = [] \<and>
   remote (handleDeleteProduct (Rejected ''offline'') (Fin 1) None
      [\<lparr>pid = Fin 1, name = ''Groundnut Oil 1L'', price = Fin 250, docId = None\<rparr>]
      (onAuthStateChanged (Some \<lparr>uid = ''op1''\<rparr>)
        (initialState [\<lparr>pid = Fin 1, name = ''Groundnut Oil 1L'', price = Fin 250, docId = None\<rparr>]))) = [] \<and>
   products (onAuthStateChanged (Some \<lparr>uid = ''op1''\<rparr>)
        (initialState [\<lparr>pid = Fin 1, name = ''Groundnut Oil 1L'', price = Fin 250, docId = None\<rparr>])) =
     [\<lparr>pid = Fin 1, name = ''Groundnut Oil 1L'', price = Fin 250, docId = None\<rparr>]"
  by (simp add: handleDeleteProduct_def docToDelete_def initialState_def onAuthStateChanged_def
        strictEquals_def isZero_def)

text \<open>
  C4, amended. When the \<^verbatim>\<open>docId\<close> argument is truthy, or else the catalog the handler
  was rendered with has an entry with the given code and a truthy \<^verbatim>\<open>docId\<close>, the
  remote deletion of that document (of the first such entry) is issued; if it is
  rejected the working catalog is unchanged and the failure is alerted, and if it
  resolves the entries with the given code are removed. Only when there is neither is
  no remote deletion issued and the entries with the given code are removed locally.
  In each case nothing else of the state changes.
\<close>

theorem delete_remote_first:
  "(truthy dId \<longrightarrow>
      (\<exists>d. dId = Some d \<and>
         handleDeleteProduct (Rejected err) i dId rendered st =
           st\<lparr>remote := remote st @ [DeleteDoc ''products'' d],
              alerts := alerts st @ [''Failed to delete product from database.'']\<rparr> \<and>
         handleDeleteProduct (Resolved ()) i dId rendered st =
           st\<lparr>remote := remote st @ [DeleteDoc ''products'' d],
              products := filter (\<lambda>p. \<not> strictEquals (pid p) i) (products st)\<rparr>)) \<and>
   (\<not> truthy dId \<and> rendered = pre @ p # post \<and> strictEquals (pid p) i \<and>
    docId p = Some d \<and> d \<noteq> [] \<and>
    (\<forall>q\<in>set pre. strictEquals (pid q) i \<longrightarrow> \<not> truthy (docId q)) \<longrightarrow>
      handleDeleteProduct (Rejected err) i dId rendered st =
        st\<lparr>remote := remote st @ [DeleteDoc ''products'' d],
           alerts := alerts st @ [''Failed to delete product from database.'']\<rparr> \<and>
      handleDeleteProduct (Resolved ()) i dId rendered st =
        st\<lparr>remote := remote st @ [DeleteDoc ''products'' d],
           products := filter (\<lambda>p. \<not> strictEquals (pid p) i) (products st)\<rparr>) \<and>
   (\<not> truthy dId \<and>
    (\<forall>q\<in>set rendered. strictEquals (pid q) i \<longrightarrow> \<not> truthy (docId q)) \<longrightarrow>
      handleDeleteProduct awaited i dId rendered st =
        st\<lparr>products := filter (\<lambda>p. \<not> strictEquals (pid p) i) (products st)\<rparr>)"
proof -
  have given: "\<exists>d. dId = Some d \<and>
         handleDeleteProduct (Rejected err) i dId rendered st =
           st\<lparr>remote := remote st @ [DeleteDoc ''products'' d],
              alerts := alerts st @ [''Failed to delete product from database.'']\<rparr> \<and>
         handleDeleteProduct (Resolved ()) i dId rendered st =
           st\<lparr>remote := remote st @ [DeleteDoc ''products'' d],
              products := filter (\<lambda>p. \<not> strictEquals (pid p) i) (products st)\<rparr>"
    if t: "truthy dId"
  proof -
    from t obtain d where d: "dId = Some d" by (cases dId) simp_all
    from t have "docToDelete rendered i dId = dId" by (rule docToDelete_given)
    with d have "docToDelete rendered i dId = Some d" by simp
    from delete_with_target [OF this] d show ?thesis by blast
  qed
  have scanned: "handleDeleteProduct (Rejected err) i dId rendered st =
        st\<lparr>remote := remote st @ [DeleteDoc ''products'' d],
           alerts := alerts st @ [''Failed to delete product from database.'']\<rparr> \<and>
      handleDeleteProduct (Resolved ()) i dId rendered st =
        st\<lparr>remote := remote st @ [DeleteDoc ''products'' d],
           products := filter (\<lambda>p. \<not> strictEquals (pid p) i) (products st)\<rparr>"
    if a: "\<not> truthy dId \<and> rendered = pre @ p # post \<and> strictEquals (pid p) i \<and>
      docId p = Some d \<and> d \<noteq> [] \<and>
      (\<forall>q\<in>set pre. strictEquals (pid q) i \<longrightarrow> \<not> truthy (docId q))"
  proof -
    from a have "docToDelete (pre @ p # post) i dId = Some d"
      by (intro docToDelete_first) simp_all
    with a have "docToDelete rendered i dId = Some d" by simp
    from delete_with_target [OF this] show ?thesis by blast
  qed
  have local: "handleDeleteProduct awaited i dId rendered st =
        st\<lparr>products := filter (\<lambda>p. \<not> strictEquals (pid p) i) (products st)\<rparr>"
    if a: "\<not> truthy dId \<and>
      (\<forall>q\<in>set rendered. strictEquals (pid q) i \<longrightarrow> \<not> truthy (docId q))"
  proof -
    from a have "docToDelete rendered i dId = None"
      by (intro find_none_docToDelete) simp_all
    then show ?thesis by (simp add: handleDeleteProduct_def)
  qed
  from given scanned local show ?thesis by blast
qed

theorem delete_remote_first_witness:
  "products (handleDeleteProduct (Rejected ''offline'') (Fin 2) None
        [\<lparr>pid = Fin 1, name = ''Groundnut Oil 1L'', price = Fin 250, docId = None\<rparr>,
         \<lparr>pid = Fin 2, name = ''Sesame Oil 500ml'', price = Fin 180, docId = Some ''doc2''\<rparr>]
      (initialState
        [\<lparr>pid = Fin 1, name = ''Groundnut Oil 1L'', price = Fin 250, docId = None\<rparr>,
         \<lparr>pid = Fin 2, name = ''Sesame Oil 500ml'', price = Fin 180, docId = Some ''doc2''\<rparr>])) =
     [\<lparr>pid = Fin 1, name = ''Groundnut Oil 1L'', price = Fin 250, docId = None\<rparr>,
      \<lparr>pid = Fin 2, name = ''Sesame Oil 500ml'', price = Fin 180, docId = Some ''doc2''\<rparr>] \<and>
   products (handleDeleteProduct (Resolved ()) (Fin 2) None
        [\<lparr>pid = Fin 1, name = ''Groundnut Oil 1L'', price = Fin 250, docId = None\<rparr>,
         \<lparr>pid = Fin 2, name = ''Sesame Oil 500ml'', price = Fin 180, docId = Some ''doc2''\<rparr>]
      (initialState
        [\<lparr>pid = Fin 1, name = ''Groundnut Oil 1L'', price = Fin 250, docId = None\<rparr>,
         \<lparr>pid = Fin 2, name = ''Sesame Oil 500ml'', price = Fin 180, docId = Some ''doc2''\<rparr>])) =
     [\<lparr>pid = Fin 1, name = ''Groundnut Oil 1L'', price = Fin 250, docId = None\<rparr>] \<and>
   remote (handleDeleteProduct (Resolved ()) (Fin 2) None
        [\<lparr>pid = Fin 1, name = ''Groundnut Oil 1L'', price = Fin 250, docId = None\<rparr>,
         \<lparr>pid = Fin 2, name = ''Sesame Oil 500ml'', price = Fin 180, docId = Some ''doc2''\<rparr>]
      (initialState
        [\<lparr>pid = Fin 1, name = ''Groundnut Oil 1L'', price = Fin 250, docId = None\<rparr>,
         \<lparr>pid = Fin 2, name = ''Sesame Oil 500ml'', price = Fin 180, docId = Some ''doc2''\<rparr>])) =
     [DeleteDoc ''products'' ''doc2''] \<and>
   products (handleDeleteProduct (Rejected ''offline'') (Fin 1) None
        [\<lparr>pid = Fin 1, name = ''Groundnut Oil 1L'', price = Fin 250, docId = None\<rparr>,
         \<lparr>pid = Fin 2, name = ''Sesame Oil 500ml'', price = Fin 180, docId = Some ''doc2''\<rparr>]
      (initialState
        [\<lparr>pid = Fin 1, name = ''Groundnut Oil 1L'', price = Fin 250, docId = None\<rparr>,
         \<lparr>pid = Fin 2, name = ''Sesame Oil 500ml'', price = Fin 180, docId = Some ''doc2''\<rparr>])) =
     [\<lparr>pid = Fin 2, name = ''Sesame Oil 500ml'', price = Fin 180, docId = Some ''doc2''\<rparr>] \<and>
   remote (handleDeleteProduct (Rejected ''offline'') (Fin 1) (Some ''doc9'')
        [\<lparr>pid = Fin 1, name = ''Groundnut Oil 1L'', price = Fin 250, docId = None\<rparr>,
         \<lparr>pid = Fin 2, name = ''Sesame Oil 500ml'', price = Fin 180, docId = Some ''doc2''\<rparr>]
      (initialState
        [\<lparr>pid = Fin 1, name = ''Groundnut Oil 1L'', price = Fin 250, docId = None\<rparr>,
         \<lparr>pid = Fin 2, name = ''Sesame Oil 500ml'', price = Fin 180, docId = Some ''doc2''\<rparr>])) =
     [DeleteDoc ''products'' ''doc9'']"
proof -
  let ?p1 = "\<lparr>pid = Fin 1, name = ''Groundnut Oil 1L'', price = Fin 250, docId = None\<rparr>"
  let ?p2 = "\<lparr>pid = Fin 2, name = ''Sesame Oil 500ml'', price = Fin 180, docId = Some ''doc2''\<rparr>"
  let ?st = "initialState [?p1, ?p2]"
  have scanned: "\<not> truthy None \<and> [?p1, ?p2] = [?p1] @ ?p2 # [] \<and> strictEquals (pid ?p2) (Fin 2) \<and>
      docId ?p2 = Some ''doc2'' \<and> ''doc2'' \<noteq> [] \<and>
      (\<forall>q\<in>set [?p1]. strictEquals (pid q) (Fin 2) \<longrightarrow> \<not> truthy (docId q))"
    by (simp add: initialState_def strictEquals_def isZero_def)
  have local: "\<not> truthy None \<and>
      (\<forall>q\<in>set [?p1, ?p2]. strictEquals (pid q) (Fin 1) \<longrightarrow> \<not> truthy (docId q))"
    by (simp add: initialState_def strictEquals_def isZero_def)
  have given: "truthy (Some ''doc9'')" by simp
  note part2 = delete_remote_first [where st = ?st and rendered = "[?p1, ?p2]" and i = "Fin 2" and dId = None and d = "''doc2''"
      and pre = "[?p1]" and p = ?p2 and post = "[]" and err = "''offline''",
      THEN conjunct2, THEN conjunct1]
  note part3 = delete_remote_first [where st = ?st and rendered = "[?p1, ?p2]" and i = "Fin 1" and dId = None
      and awaited = "Rejected ''offline''", THEN conjunct2, THEN conjunct2]
  note part1 = delete_remote_first [where st = ?st and rendered = "[?p1, ?p2]" and i = "Fin 1" and dId = "Some ''doc9''"
      and err = "''offline''", THEN conjunct1]
  from part2 scanned
  have a: "handleDeleteProduct (Rejected ''offline'') (Fin 2) None [?p1, ?p2] ?st =
        ?st\<lparr>remote := remote ?st @ [DeleteDoc ''products'' ''doc2''],
           alerts := alerts ?st @ [''Failed to delete product from database.'']\<rparr> \<and>
      handleDeleteProduct (Resolved ()) (Fin 2) None [?p1, ?p2] ?st =
        ?st\<lparr>remote := remote ?st @ [DeleteDoc ''products'' ''doc2''],
           products := filter (\<lambda>p. \<not> strictEquals (pid p) (Fin 2)) (products ?st)\<rparr>"
    by (rule mp)
  from part3 local
  have b: "handleDeleteProduct (Rejected ''offline'') (Fin 1) None [?p1, ?p2] ?st =
        ?st\<lparr>products := filter (\<lambda>p. \<not> strictEquals (pid p) (Fin 1)) (products ?st)\<rparr>"
    by (rule mp)
  from part1 given
  have c: "\<exists>d. Some ''doc9'' = Some d \<and>
         handleDeleteProduct (Rejected ''offline'') (Fin 1) (Some ''doc9'') [?p1, ?p2] ?st =
           ?st\<lparr>remote := remote ?st @ [DeleteDoc ''products'' d],
              alerts := alerts ?st @ [''Failed to delete product from database.'']\<rparr> \<and>
         handleDeleteProduct (Resolved ()) (Fin 1) (Some ''doc9'') [?p1, ?p2] ?st =
           ?st\<lparr>remote := remote ?st @ [DeleteDoc ''products'' d],
              products := filter (\<lambda>p. \<not> strictEquals (pid p) (Fin 1)) (products ?st)\<rparr>"
    by (rule mp)
  then have c': "handleDeleteProduct (Rejected ''offline'') (Fin 1) (Some ''doc9'') [?p1, ?p2] ?st =
           ?st\<lparr>remote := remote ?st @ [DeleteDoc ''products'' ''doc9''],
              alerts := alerts ?st @ [''Failed to delete product from database.'']\<rparr>"
    by auto
  from a have a1: "handleDeleteProduct (Rejected ''offline'') (Fin 2) None [?p1, ?p2] ?st =
        ?st\<lparr>remote := remote ?st @ [DeleteDoc ''products'' ''doc2''],
           alerts := alerts ?st @ [''Failed to delete product from database.'']\<rparr>"
    and a2: "handleDeleteProduct (Resolved ()) (Fin 2) None [?p1, ?p2] ?st =
        ?st\<lparr>remote := remote ?st @ [DeleteDoc ''products'' ''doc2''],
           products := filter (\<lambda>p. \<not> strictEquals (pid p) (Fin 2)) (products ?st)\<rparr>"
    by simp_all
  show ?thesis
    by (simp only: a1 a2 b c') (simp add: initialState_def strictEquals_def isZero_def)
qed

text \<open>
  C10. Called without a \<^verbatim>\<open>docId\<close> argument for a code that no catalog entry with a
  (truthy) document id carries, \<^verbatim>\<open>handleDeleteProduct\<close> issues no remote call and
  raises no alert, whatever the store would have answered, and the working catalog
  loses exactly the entries with that code.
\<close>

theorem delete_without_remote_ref:
  assumes "\<forall>p\<in>set rendered. strictEquals (pid p) i \<longrightarrow> \<not> truthy (docId p)"
  shows "remote (handleDeleteProduct awaited i None rendered st) = remote st \<and>
         alerts (handleDeleteProduct awaited i None rendered st) = alerts st \<and>
         products (handleDeleteProduct awaited i None rendered st) =
           filter (\<lambda>p. \<not> strictEquals (pid p) i) (products st) \<and>
         (\<forall>p\<in>set (products (handleDeleteProduct awaited i None rendered st)).
            \<not> strictEquals (pid p) i)"
  using find_none_docToDelete [of None rendered i] assms
  by (simp add: handleDeleteProduct_def)

theorem delete_without_remote_ref_witness:
  "remote (handleDeleteProduct (Rejected ''offline'') (Fin 1) None
        [\<lparr>pid = Fin 1, name = ''Groundnut Oil 1L'', price = Fin 250, docId = None\<rparr>,
         \<lparr>pid = Fin 2, name = ''Sesame Oil 500ml'', price = Fin 180, docId = Some ''doc2''\<rparr>]
      (initialState
        [\<lparr>pid = Fin 1, name = ''Groundnut Oil 1L'', price = Fin 250, docId = None\<rparr>,
         \<lparr>pid = Fin 2, name = ''Sesame Oil 500ml'', price = Fin 180, docId = Some ''doc2''\<rparr>])) = [] \<and>
   products (handleDeleteProduct (Rejected ''offline'') (Fin 1) None
        [\<lparr>pid = Fin 1, name = ''Groundnut Oil 1L'', price = Fin 250, docId = None\<rparr>,
         \<lparr>pid = Fin 2, name = ''Sesame Oil 500ml'', price = Fin 180, docId = Some ''doc2''\<rparr>]
      (initialState
        [\<lparr>pid = Fin 1, name = ''Groundnut Oil 1L'', price = Fin 250, docId = None\<rparr>,
         \<lparr>pid = Fin 2, name = ''Sesame Oil 500ml'', price = Fin 180, docId = Some ''doc2''\<rparr>])) =
     [\<lparr>pid = Fin 2, name = ''Sesame Oil 500ml'', price = Fin 180, docId = Some ''doc2''\<rparr>]"
  using delete_without_remote_ref
    [of "[\<lparr>pid = Fin 1, name = ''Groundnut Oil 1L'', price = Fin 250, docId = None\<rparr>,
          \<lparr>pid = Fin 2, name = ''Sesame Oil 500ml'', price = Fin 180, docId = Some ''doc2''\<rparr>]"
        "Fin 1" "Rejected ''offline''"
        "initialState
        [\<lparr>pid = Fin 1, name = ''Groundnut Oil 1L'', price = Fin 250, docId = None\<rparr>,
         \<lparr>pid = Fin 2, name = ''Sesame Oil 500ml'', price = Fin 180, docId = Some ''doc2''\<rparr>]"]
  by (simp add: initialState_def strictEquals_def isZero_def)

subsection \<open>Saving an invoice\<close>

text \<open>
  C5. With an operator logged in: when the remote write is rejected,
  \<^verbatim>\<open>handleSaveInvoice\<close> returns \<^verbatim>\<open>false\<close>, raises the failure alert and leaves the
  current invoice, hence the lifecycle state, as it was; saving the same invoice again
  then succeeds once the store accepts the write. When the write resolves, the handler
  returns \<^verbatim>\<open>true\<close> and the current invoice is the saved one with the document id of the
  store attached, so the lifecycle state is \<open>Persisted\<close>.
\<close>

theorem save_invoice:
  "fst (handleSaveInvoice (Rejected err) invoiceData (st\<lparr>user := Some u\<rparr>)) = Some False \<and>
   currentInvoice (snd (handleSaveInvoice (Rejected err) invoiceData (st\<lparr>user := Some u\<rparr>))) =
     currentInvoice st \<and>
   lifecycle (snd (handleSaveInvoice (Rejected err) invoiceData (st\<lparr>user := Some u\<rparr>))) =
     lifecycle st \<and>
   alerts (snd (handleSaveInvoice (Rejected err) invoiceData (st\<lparr>user := Some u\<rparr>))) =
     alerts st @ [''Failed to save the invoice. Please try again.''] \<and>
   user (snd (handleSaveInvoice (Rejected err) invoiceData (st\<lparr>user := Some u\<rparr>))) = Some u \<and>
   handleSaveInvoice (Resolved ref) invoiceData
       (snd (handleSaveInvoice (Rejected err) invoiceData (st\<lparr>user := Some u\<rparr>))) =
     (Some True,
      (snd (handleSaveInvoice (Rejected err) invoiceData (st\<lparr>user := Some u\<rparr>)))
        \<lparr>currentInvoice := Some (invoiceData\<lparr>inv_id := Some ref\<rparr>),
         remote := remote st @ [AddInvoiceDoc invoiceData, AddInvoiceDoc invoiceData]\<rparr>) \<and>
   fst (handleSaveInvoice (Resolved ref) invoiceData (st\<lparr>user := Some u\<rparr>)) = Some True \<and>
   currentInvoice (snd (handleSaveInvoice (Resolved ref) invoiceData (st\<lparr>user := Some u\<rparr>))) =
     Some (invoiceData\<lparr>inv_id := Some ref\<rparr>) \<and>
   lifecycle (snd (handleSaveInvoice (Resolved ref) invoiceData (st\<lparr>user := Some u\<rparr>))) = Persisted \<and>
   remote (snd (handleSaveInvoice (Resolved ref) invoiceData (st\<lparr>user := Some u\<rparr>))) =
     remote st @ [AddInvoiceDoc invoiceData]"
  by (simp add: handleSaveInvoice_def Let_def alert_def issue_def lifecycle_def)

subsection \<open>Loading the catalog\<close>

text \<open>
  C8, as stated, fails: after the operator has deleted the first of two built-in
  products, an empty answer of the store leaves the working catalog with the second
  product only, which is not the built-in list.
\<close>

theorem load_empty_counterexample:
  "products (loadProducts
      [\<lparr>pid = Fin 1, name = ''Groundnut Oil 1L'', price = Fin 250, docId = None\<rparr>,
       \<lparr>pid = Fin 2, name = ''Sesame Oil 500ml'', price = Fin 180, docId = None\<rparr>]
      (Resolved [])
      (handleDeleteProduct (Resolved ()) (Fin 1) None
         [\<lparr>pid = Fin 1, name = ''Groundnut Oil 1L'', price = Fin 250, docId = None\<rparr>,
          \<lparr>pid = Fin 2, name = ''Sesame Oil 500ml'', price = Fin 180, docId = None\<rparr>]
         (onAuthStateChanged (Some \<lparr>uid = ''op1''\<rparr>)
            (initialState
               [\<lparr>pid = Fin 1, name = ''Groundnut Oil 1L'', price = Fin 250, docId = None\<rparr>,
                \<lparr>pid = Fin 2, name = ''Sesame Oil 500ml'', price = Fin 180, docId = None\<rparr>])))) =
     [\<lparr>pid = Fin 2, name = ''Sesame Oil 500ml'', price = Fin 180, docId = None\<rparr>]"
  by (simp add: loadProducts_def issue_def handleDeleteProduct_def docToDelete_def
        onAuthStateChanged_def initialState_def strictEquals_def isZero_def)

text \<open>
  C8, amended. \<^verbatim>\<open>loadProducts\<close> asks for the products ordered by \<^verbatim>\<open>id\<close> ascending.
  A non-empty answer replaces the whole working catalog by the delivered products, in
  the delivered order, each with the code, name and price of its document and the
  document id. A rejected read sets the working catalog to the built-in list. An empty
  answer leaves the working catalog as it is, which is the built-in list when nothing
  has changed it since mounting. In each case nothing else of the state changes but the
  log of issued calls.
\<close>

theorem load_products:
  "loadProducts PRODUCTS (Resolved (d # ds)) st =
     st\<lparr>remote := remote st @ [GetDocs (Query ''products'' [OrderBy ''id'' Asc])],
        products := map (\<lambda>d. \<lparr>pid = d_id d, name = d_name d, price = d_price d,
                               docId = Some (d_docId d)\<rparr>) (d # ds)\<rparr> \<and>
   loadProducts PRODUCTS (Rejected err) st =
     st\<lparr>remote := remote st @ [GetDocs (Query ''products'' [OrderBy ''id'' Asc])],
        products := PRODUCTS\<rparr> \<and>
   loadProducts PRODUCTS (Resolved []) st =
     st\<lparr>remote := remote st @ [GetDocs (Query ''products'' [OrderBy ''id'' Asc])]\<rparr> \<and>
   products (loadProducts PRODUCTS (Resolved []) st) = products st \<and>
   products (loadProducts PRODUCTS (Resolved []) (initialState PRODUCTS)) = PRODUCTS"
  by (simp add: loadProducts_def Let_def issue_def initialState_def productOfDoc_def
        productsQuery_def comp_def)

subsection \<open>The invoice history\<close>

lemma toLowerCase_Nil: "toLowerCase lower [] = []"
  by (simp add: toLowerCase_def)

lemma those_invoiceOfDoc:
  assumes "\<forall>d\<in>set docs. createdAt (doc_data d) \<noteq> None"
  shows "\<exists>invs. those (map (invoiceOfDoc toDate) docs) = Some invs \<and>
           list_all2 (\<lambda>d invoice.
              map_option toDate (createdAt (doc_data d)) = Some (date invoice) \<and>
              invoice\<lparr>inv_id := inv_id (doc_data d), date := date (doc_data d)\<rparr> = doc_data d)
             docs invs"
  using assms
proof (induction docs)
  case Nil
  then show ?case by simp
next
  case (Cons d docs)
  then obtain invs where invs: "those (map (invoiceOfDoc toDate) docs) = Some invs"
    and rel: "list_all2 (\<lambda>d invoice.
              map_option toDate (createdAt (doc_data d)) = Some (date invoice) \<and>
              invoice\<lparr>inv_id := inv_id (doc_data d), date := date (doc_data d)\<rparr> = doc_data d)
             docs invs"
    by auto
  from Cons.prems obtain ts where ts: "createdAt (doc_data d) = Some ts" by auto
  then obtain invoice where one: "invoiceOfDoc toDate d = Some invoice"
    and d: "date invoice = toDate ts"
    and rest: "invoice\<lparr>inv_id := inv_id (doc_data d), date := date (doc_data d)\<rparr> = doc_data d"
    by (simp add: invoiceOfDoc_def Let_def)
  from invs one have "those (map (invoiceOfDoc toDate) (d # docs)) = Some (invoice # invs)"
    by simp
  moreover from rel ts d rest have "list_all2 (\<lambda>d invoice.
              map_option toDate (createdAt (doc_data d)) = Some (date invoice) \<and>
              invoice\<lparr>inv_id := inv_id (doc_data d), date := date (doc_data d)\<rparr> = doc_data d)
             (d # docs) (invoice # invs)"
    by simp
  ultimately show ?case by blast
qed

lemma filteredInvoices_empty_term: "filteredInvoices lower fmt invs [] = invs"
  by (simp add: filteredInvoices_def includesStr_def toLowerCase_Nil)

text \<open>
  C6. For every operator, \<^verbatim>\<open>fetchInvoices\<close> issues exactly one query: the invoices
  whose \<^verbatim>\<open>userId\<close> equals the operator's \<^verbatim>\<open>uid\<close>, ordered by \<^verbatim>\<open>createdAt\<close>
  descending. When the store delivers records that all carry \<^verbatim>\<open>createdAt\<close>, the
  component holds one invoice per record, in the delivered order, whose date is the
  server's \<^verbatim>\<open>createdAt\<close> converted to a date and whose other fields (the id apart) are
  the stored ones; a freshly mounted component shows them all. When the read is
  rejected, only the error message is rendered and the held invoices are not replaced.
\<close>

theorem history_query:
  "h_remote (fetchInvoices toDate u awaited hs) =
     h_remote hs @ [GetDocs (Query ''invoices'' [Where_eq ''userId'' (uid u), OrderBy ''createdAt'' Desc])] \<and>
   ((\<forall>d\<in>set docs. createdAt (doc_data d) \<noteq> None) \<longrightarrow>
      list_all2 (\<lambda>d invoice.
          map_option toDate (createdAt (doc_data d)) = Some (date invoice) \<and>
          invoice\<lparr>inv_id := inv_id (doc_data d), date := date (doc_data d)\<rparr> = doc_data d)
        docs (invoices (fetchInvoices toDate u (Resolved docs) hs)) \<and>
      render lower fmt (fetchInvoices toDate u (Resolved docs) initialHistory) =
        TableView (invoices (fetchInvoices toDate u (Resolved docs) initialHistory))) \<and>
   render lower fmt (fetchInvoices toDate u (Rejected err) hs) =
     ErrorView ''Failed to fetch invoice history.'' \<and>
   invoices (fetchInvoices toDate u (Rejected err) hs) = invoices hs"
proof (intro conjI impI)
  show "h_remote (fetchInvoices toDate u awaited hs) =
     h_remote hs @ [GetDocs (Query ''invoices'' [Where_eq ''userId'' (uid u), OrderBy ''createdAt'' Desc])]"
    by (cases awaited) (simp_all add: fetchInvoices_def Let_def invoicesQuery_def split: option.splits)
next
  assume stamped: "\<forall>d\<in>set docs. createdAt (doc_data d) \<noteq> None"
  from those_invoiceOfDoc [OF stamped, of toDate] obtain invs
    where invs: "those (map (invoiceOfDoc toDate) docs) = Some invs"
      and rel: "list_all2 (\<lambda>d invoice.
          map_option toDate (createdAt (doc_data d)) = Some (date invoice) \<and>
          invoice\<lparr>inv_id := inv_id (doc_data d), date := date (doc_data d)\<rparr> = doc_data d)
        docs invs"
    by blast
  from invs have "invoices (fetchInvoices toDate u (Resolved docs) hs) = invs"
    by (simp add: fetchInvoices_def Let_def)
  with rel show "list_all2 (\<lambda>d invoice.
          map_option toDate (createdAt (doc_data d)) = Some (date invoice) \<and>
          invoice\<lparr>inv_id := inv_id (doc_data d), date := date (doc_data d)\<rparr> = doc_data d)
        docs (invoices (fetchInvoices toDate u (Resolved docs) hs))"
    by simp
  from invs show "render lower fmt (fetchInvoices toDate u (Resolved docs) initialHistory) =
        TableView (invoices (fetchInvoices toDate u (Resolved docs) initialHistory))"
    by (simp add: fetchInvoices_def Let_def render_def initialHistory_def filteredInvoices_empty_term)
next
  show "render lower fmt (fetchInvoices toDate u (Rejected err) hs) =
     ErrorView ''Failed to fetch invoice history.''"
    by (simp add: fetchInvoices_def Let_def render_def)
next
  show "invoices (fetchInvoices toDate u (Rejected err) hs) = invoices hs"
    by (simp add: fetchInvoices_def Let_def)
qed

theorem history_query_witness:
  "map date (invoices (fetchInvoices (\<lambda>ts. nat (seconds ts) * 1000) \<lparr>uid = ''op1''\<rparr>
      (Resolved
        [\<lparr>doc_id = ''inv1'',
          doc_data = \<lparr>inv_id = None, invoiceNumber = ''BSMOM-1700000000001'', date = 5,
            customerName = ''Asha'', customerPhone = ''98'', items = [], subtotal = Fin 0,
            gstAmount = Fin 0, grandTotal = Fin 0, userId = ''op1'',
            createdAt = Some (Timestamp 1700000000 0)\<rparr>\<rparr>])
      initialHistory)) = [1700000000000]"
proof -
  let ?doc = "\<lparr>doc_id = ''inv1'',
          doc_data = \<lparr>inv_id = None, invoiceNumber = ''BSMOM-1700000000001'', date = 5,
            customerName = ''Asha'', customerPhone = ''98'', items = [], subtotal = Fin 0,
            gstAmount = Fin 0, grandTotal = Fin 0, userId = ''op1'',
            createdAt = Some (Timestamp 1700000000 0)\<rparr>\<rparr>"
  have stamped: "\<forall>d\<in>set [?doc]. createdAt (doc_data d) \<noteq> None" by simp
  from history_query [where docs = "[?doc]" and toDate = "\<lambda>ts. nat (seconds ts) * 1000"
      and u = "\<lparr>uid = ''op1''\<rparr>" and hs = initialHistory] stamped
  have "list_all2 (\<lambda>d invoice.
          map_option (\<lambda>ts. nat (seconds ts) * 1000) (createdAt (doc_data d)) = Some (date invoice) \<and>
          invoice\<lparr>inv_id := inv_id (doc_data d), date := date (doc_data d)\<rparr> = doc_data d)
        [?doc] (invoices (fetchInvoices (\<lambda>ts. nat (seconds ts) * 1000) \<lparr>uid = ''op1''\<rparr>
           (Resolved [?doc]) initialHistory))"
    by blast
  then show ?thesis
    by (auto simp: list_all2_Cons1)
qed












end
